theory Spec2Isabelle
  imports Main "HOL-Library.AList"
begin

section \<open>Python values and dictionaries\<close>

text \<open>
  A component record is a Python \<^verbatim>\<open>dict\<close> with string keys. Its values are dynamically
  typed: the manager never checks the type of a field except \<^verbatim>\<open>ui_port\<close>. The values
  modelled are the JSON scalars the data model uses: \<^verbatim>\<open>None\<close>, booleans, integers and
  strings. Floats, lists and nested dictionaries as field values are outside the model.

  Dictionaries keep insertion order (the loops of the manager walk them in that order and
  raise at the first conflict), so they are association lists: \<^verbatim>\<open>d[k] = v\<close> is
  \<open>AList.update k v d\<close> (in place for an existing key, appended otherwise) and
  \<^verbatim>\<open>del d[k]\<close> is \<open>AList.delete k d\<close>.
\<close>

datatype pyval = PNone | PBool bool | PInt int | PStr string

type_synonym pydict = "(string \<times> pyval) list"

type_synonym store = "(string \<times> pydict) list"

text \<open>\<^verbatim>\<open>d.get(k)\<close>: the value under \<open>k\<close>, \<^verbatim>\<open>None\<close> when the key is absent.\<close>

definition dict_get :: "pydict \<Rightarrow> string \<Rightarrow> pyval" where
  "dict_get d k = (case map_of d k of None \<Rightarrow> PNone | Some v \<Rightarrow> v)"

text \<open>Truth value of a Python object, as \<^verbatim>\<open>if x\<close> and \<^verbatim>\<open>not x\<close> test it.\<close>

fun truthy :: "pyval \<Rightarrow> bool" where
  "truthy PNone = False"
| "truthy (PBool b) = b"
| "truthy (PInt n) = (n \<noteq> 0)"
| "truthy (PStr s) = (s \<noteq> [])"

text \<open>
  \<^verbatim>\<open>isinstance(x, int)\<close>: \<^verbatim>\<open>bool\<close> is a subclass of \<^verbatim>\<open>int\<close> in Python, with
  \<^verbatim>\<open>True == 1\<close> and \<^verbatim>\<open>False == 0\<close>. \<open>int_value\<close> is only read on such values.
\<close>

fun isinstance_int :: "pyval \<Rightarrow> bool" where
  "isinstance_int (PInt n) = True"
| "isinstance_int (PBool b) = True"
| "isinstance_int PNone = False"
| "isinstance_int (PStr s) = False"

fun int_value :: "pyval \<Rightarrow> int" where
  "int_value (PInt n) = n"
| "int_value (PBool b) = (if b then 1 else 0)"
| "int_value PNone = 0"
| "int_value (PStr s) = 0"

text \<open>Python's \<^verbatim>\<open>==\<close> on these values: numbers (booleans included) compare by value.\<close>

fun py_eq :: "pyval \<Rightarrow> pyval \<Rightarrow> bool" where
  "py_eq PNone w = (w = PNone)"
| "py_eq (PStr s) w = (w = PStr s)"
| "py_eq (PInt n) w = (isinstance_int w \<and> int_value w = n)"
| "py_eq (PBool b) w = (isinstance_int w \<and> int_value w = (if b then 1 else 0))"

text \<open>\<^verbatim>\<open>x in [a, b, ...]\<close> compares with \<^verbatim>\<open>==\<close>.\<close>

definition py_in :: "pyval \<Rightarrow> pyval list \<Rightarrow> bool" where
  "py_in x ys = list_ex (\<lambda>y. py_eq y x) ys"

section \<open>Errors\<close>

text \<open>
  Every failure of the manager is a Python \<^verbatim>\<open>ValueError\<close> with a message; one
  constructor per message, with the values the message interpolates. The specification's
  taxonomy (load, validation, persist) is \<open>class_of\<close>.
\<close>

datatype error =
    IdEmpty
  | IdInvalid
  | IdExists string
  | IdUnknown string
  | PortInUse pyval string
  | ProxyExists string
  | UiPortRequired
  | UiPortRange
  | ProtocolRequired
  | ProtocolInvalid
  | IconRequired
  | SectionRequired
  | SuffixRequired
  | NameRequired
  | DeleteUnknown string
  | SaveFailed
  | LoadParseFailed
  | LoadFailed

datatype error_class = ValidationError | PersistError | LoadError

fun class_of :: "error \<Rightarrow> error_class" where
  "class_of SaveFailed = PersistError"
| "class_of LoadParseFailed = LoadError"
| "class_of LoadFailed = LoadError"
| "class_of e = ValidationError"


datatype outcome = Returned | Raised error

section \<open>Objects, files and the manager\<close>

text \<open>
  \<^verbatim>\<open>self.components_data\<close> is a reference to one dictionary object, which the manager
  mutates in place and hands out from \<^verbatim>\<open>get_all_components\<close>. The world holds the
  dictionary objects by address, the files by path and the fault the next write runs into.
  A file is represented by its text; \<^verbatim>\<open>json.dump\<close> and \<^verbatim>\<open>json.load\<close> belong to the
  Python library and are parameters \<open>dumpf\<close> and \<open>loadf\<close> of the functions that call them
  (\<open>loadf\<close> gives \<open>None\<close> where \<^verbatim>\<open>json.load\<close> raises \<^verbatim>\<open>JSONDecodeError\<close>).
  Only the dictionary of all components is an object with an identity; the records in it
  are values.
\<close>

type_synonym ref = nat

datatype parsed = JObject store | JOther

datatype 't disk_file = Unreadable | Truncated | Text 't

datatype fault = NoFault | OpenFails | DumpFails | ReplaceFails

record manager =
  filepath :: string
  components_data :: ref

record 't world =
  heap :: "ref \<Rightarrow> store"
  fresh :: ref
  files :: "string \<rightharpoonup> 't disk_file"
  fault :: fault

definition store_of :: "manager \<Rightarrow> 't world \<Rightarrow> store" where
  "store_of self w = heap w (components_data self)"

definition set_store :: "manager \<Rightarrow> store \<Rightarrow> 't world \<Rightarrow> 't world" where
  "set_store self st w = w\<lparr>heap := (heap w)(components_data self := st)\<rparr>"

text \<open>
  \<^verbatim>\<open>_load_data\<close>: an absent file is an empty dictionary; an unreadable file, a text that
  does not parse and a JSON value that is not an object all end in \<^verbatim>\<open>ValueError\<close>.
\<close>

definition load_data :: "('t \<Rightarrow> parsed option) \<Rightarrow> (string \<rightharpoonup> 't disk_file) \<Rightarrow> string \<Rightarrow> error + store" where
  "load_data loadf fs path =
     (case fs path of
        None \<Rightarrow> Inr []
      | Some Unreadable \<Rightarrow> Inl LoadFailed
      | Some Truncated \<Rightarrow> Inl LoadParseFailed
      | Some (Text t) \<Rightarrow>
          (case loadf t of
             None \<Rightarrow> Inl LoadParseFailed
           | Some JOther \<Rightarrow> Inl LoadFailed
           | Some (JObject data) \<Rightarrow> Inr data))"

text \<open>
  \<^verbatim>\<open>__init__\<close>: the loaded dictionary is a new object; when \<^verbatim>\<open>_load_data\<close> raises, no
  manager exists.
\<close>

definition init_manager ::
  "('t \<Rightarrow> parsed option) \<Rightarrow> string \<Rightarrow> 't world \<Rightarrow> error + (manager \<times> 't world)" where
  "init_manager loadf path w =
     (case load_data loadf (files w) path of
        Inl e \<Rightarrow> Inl e
      | Inr data \<Rightarrow>
          Inr (\<lparr>filepath = path, components_data = fresh w\<rparr>,
               w\<lparr>heap := (heap w)(fresh w := data), fresh := Suc (fresh w)\<rparr>))"

text \<open>
  \<^verbatim>\<open>_save_data\<close>: the text goes to the side file \<^verbatim>\<open>filepath + '.tmp'\<close>, which then
  replaces the file. Any exception on the way becomes \<^verbatim>\<open>ValueError\<close>; the file itself
  changes only when the replacement happens.
\<close>

definition save_data :: "(store \<Rightarrow> 't) \<Rightarrow> manager \<Rightarrow> 't world \<Rightarrow> outcome \<times> 't world" where
  "save_data dumpf self w =
     (let temp_filepath = filepath self @ ''.tmp''
      in case fault w of
           OpenFails \<Rightarrow> (Raised SaveFailed, w)
         | DumpFails \<Rightarrow> (Raised SaveFailed, w\<lparr>files := (files w)(temp_filepath \<mapsto> Truncated)\<rparr>)
         | ReplaceFails \<Rightarrow>
             (Raised SaveFailed,
              w\<lparr>files := (files w)(temp_filepath \<mapsto> Text (dumpf (store_of self w)))\<rparr>)
         | NoFault \<Rightarrow>
             (Returned,
              w\<lparr>files := ((files w)(temp_filepath := None))
                            (filepath self \<mapsto> Text (dumpf (store_of self w)))\<rparr>))"

text \<open>\<^verbatim>\<open>get_all_components\<close> returns the reference the manager holds, not a copy.\<close>

definition get_all_components :: "manager \<Rightarrow> 't world \<Rightarrow> ref" where
  "get_all_components self w = components_data self"

definition get_component :: "manager \<Rightarrow> 't world \<Rightarrow> string \<Rightarrow> pydict option" where
  "get_component self w component_id = map_of (store_of self w) component_id"

text \<open>What a caller can do with a reference to a dictionary: \<^verbatim>\<open>d[k] = v\<close>.\<close>

definition dict_setitem :: "ref \<Rightarrow> string \<Rightarrow> pydict \<Rightarrow> 't world \<Rightarrow> 't world" where
  "dict_setitem r k v w = w\<lparr>heap := (heap w)(r := AList.update k v (heap w r))\<rparr>"

section \<open>Validation\<close>

text \<open>
  \<^verbatim>\<open>re.match(r"^[a-z0-9-]+$", s)\<close>. In Python, \<^verbatim>\<open>$\<close> matches at the end of the string
  and also just before a newline that is the last character. A character outside ASCII
  is several bytes here and one code point in Python; neither is in the class.

  An identifier is a string. The form handler can also pass \<^verbatim>\<open>None\<close> (a missing
  field), which fails the first test of \<^verbatim>\<open>_validate_component_id\<close> as the empty string
  does and is no key of the dictionary.
\<close>

definition id_char :: "char \<Rightarrow> bool" where
  "id_char c = (c \<in> set ''abcdefghijklmnopqrstuvwxyz0123456789-'')"

fun re_match_rest :: "string \<Rightarrow> bool" where
  "re_match_rest [] = True"
| "re_match_rest (c # cs) = (if id_char c then re_match_rest cs else c = CHR 0x0A \<and> cs = [])"

definition re_match_id :: "string \<Rightarrow> bool" where
  "re_match_id s = (case s of [] \<Rightarrow> False | c # cs \<Rightarrow> id_char c \<and> re_match_rest cs)"

definition validate_component_id :: "store \<Rightarrow> string \<Rightarrow> bool \<Rightarrow> error + unit" where
  "validate_component_id st component_id is_new =
     (if component_id = [] then Inl IdEmpty
      else if \<not> re_match_id component_id then Inl IdInvalid
      else if is_new \<and> map_of st component_id \<noteq> None then Inl (IdExists component_id)
      else if \<not> is_new \<and> map_of st component_id = None then Inl (IdUnknown component_id)
      else Inr ())"

fun ui_port_loop :: "store \<Rightarrow> pyval \<Rightarrow> string option \<Rightarrow> error + unit" where
  "ui_port_loop [] new_ui_port edited = Inr ()"
| "ui_port_loop ((comp_id, comp_data) # rest) new_ui_port edited =
     (if Some comp_id = edited then ui_port_loop rest new_ui_port edited
      else if truthy (dict_get comp_data ''has_ui'')
              \<and> py_eq (dict_get comp_data ''ui_port'') new_ui_port
        then Inl (PortInUse new_ui_port comp_id)
      else ui_port_loop rest new_ui_port edited)"

definition validate_ui_port_uniqueness :: "store \<Rightarrow> pyval \<Rightarrow> string option \<Rightarrow> error + unit" where
  "validate_ui_port_uniqueness st new_ui_port edited =
     (if new_ui_port = PNone then Inr () else ui_port_loop st new_ui_port edited)"

fun reverse_proxy_loop :: "store \<Rightarrow> string option \<Rightarrow> error + unit" where
  "reverse_proxy_loop [] edited = Inr ()"
| "reverse_proxy_loop ((comp_id, comp_data) # rest) edited =
     (if Some comp_id = edited then reverse_proxy_loop rest edited
      else if truthy (dict_get comp_data ''is_reverse_proxy'') then Inl (ProxyExists comp_id)
      else reverse_proxy_loop rest edited)"

definition validate_single_reverse_proxy :: "store \<Rightarrow> pyval \<Rightarrow> string option \<Rightarrow> error + unit" where
  "validate_single_reverse_proxy st new_value edited =
     (if \<not> truthy new_value then Inr () else reverse_proxy_loop st edited)"

definition validate_dashy_tile_fields :: "pydict \<Rightarrow> error + unit" where
  "validate_dashy_tile_fields component_data =
     (if truthy (dict_get component_data ''has_ui'') then
        if dict_get component_data ''ui_port'' = PNone then Inl UiPortRequired
        else if \<not> isinstance_int (dict_get component_data ''ui_port'')
                \<or> \<not> (1 \<le> int_value (dict_get component_data ''ui_port'')
                       \<and> int_value (dict_get component_data ''ui_port'') \<le> 65535)
          then Inl UiPortRange
        else if \<not> truthy (dict_get component_data ''protocol'') then Inl ProtocolRequired
        else if \<not> py_in (dict_get component_data ''protocol'') [PStr ''http'', PStr ''https'']
          then Inl ProtocolInvalid
        else if \<not> truthy (dict_get component_data ''icon'') then Inl IconRequired
        else if \<not> truthy (dict_get component_data ''dashy_tile_section'') then Inl SectionRequired
        else if dict_get component_data ''dashy_tile_url_suffix'' = PNone then Inl SuffixRequired
        else Inr ()
      else Inr ())"

section \<open>Create, update, delete\<close>

text \<open>
  The checks of \<^verbatim>\<open>add_component\<close> and \<^verbatim>\<open>update_component\<close> after the identifier
  check, in the order of the source; \<open>edited\<close> is \<^verbatim>\<open>component_id_being_edited\<close>. The
  copy \<^verbatim>\<open>temp_data\<close> that \<^verbatim>\<open>add_component\<close> builds is never read.
\<close>

definition then_check :: "error + unit \<Rightarrow> error + unit \<Rightarrow> error + unit" where
  "then_check a b = (case a of Inl e \<Rightarrow> Inl e | Inr u \<Rightarrow> b)"

definition validate_data :: "store \<Rightarrow> pydict \<Rightarrow> string option \<Rightarrow> error + unit" where
  "validate_data st data edited =
     then_check
       (if truthy (dict_get data ''has_ui'') then
          then_check (validate_ui_port_uniqueness st (dict_get data ''ui_port'') edited)
                     (validate_dashy_tile_fields data)
        else Inr ())
       (then_check
          (if truthy (dict_get data ''is_reverse_proxy'') then
             validate_single_reverse_proxy st (dict_get data ''is_reverse_proxy'') edited
           else Inr ())
          (if \<not> truthy (dict_get data ''name'') then Inl NameRequired else Inr ()))"

definition add_component ::
  "(store \<Rightarrow> 't) \<Rightarrow> manager \<Rightarrow> 't world \<Rightarrow> string \<Rightarrow> pydict \<Rightarrow> outcome \<times> 't world" where
  "add_component dumpf self w component_id data =
     (case then_check (validate_component_id (store_of self w) component_id True)
                      (validate_data (store_of self w) data None) of
        Inl e \<Rightarrow> (Raised e, w)
      | Inr u \<Rightarrow>
          save_data dumpf self
            (set_store self (AList.update component_id data (store_of self w)) w))"

definition update_component ::
  "(store \<Rightarrow> 't) \<Rightarrow> manager \<Rightarrow> 't world \<Rightarrow> string \<Rightarrow> pydict \<Rightarrow> outcome \<times> 't world" where
  "update_component dumpf self w component_id data =
     (case then_check (validate_component_id (store_of self w) component_id False)
                      (validate_data (store_of self w) data (Some component_id)) of
        Inl e \<Rightarrow> (Raised e, w)
      | Inr u \<Rightarrow>
          save_data dumpf self
            (set_store self (AList.update component_id data (store_of self w)) w))"

definition delete_component ::
  "(store \<Rightarrow> 't) \<Rightarrow> manager \<Rightarrow> 't world \<Rightarrow> string \<Rightarrow> outcome \<times> 't world" where
  "delete_component dumpf self w component_id =
     (if map_of (store_of self w) component_id = None
        then (Raised (DeleteUnknown component_id), w)
      else save_data dumpf self
             (set_store self (AList.delete component_id (store_of self w)) w))"

section \<open>The invariants of the store\<close>

text \<open>
  I1 to I5 of the data model, written on the dictionary as it is, not through the
  validation functions. A record has a UI when its \<^verbatim>\<open>has_ui\<close> is true as Python tests
  it; a port is an integer in Python's sense (\<^verbatim>\<open>True\<close> is the integer 1, as
  \<^verbatim>\<open>isinstance(True, int)\<close> holds); two ports are distinct when \<^verbatim>\<open>==\<close> is false on
  them; a field is non-empty when it is true as Python tests it.

  I1 is \<open>inv_ids\<close>: the identifiers are distinct, non-empty and made of lowercase
  letters, digits and hyphens only, which is what the pattern of the specification and the
  message of \<^verbatim>\<open>_validate_component_id\<close> say. \<open>store_inv\<close> is I1 to I5.

  \<open>ids_accepted\<close> is the weaker property of the identifiers that the manager keeps:
  each one passes the test \<^verbatim>\<open>re.match\<close> makes, final newline included. \<open>store_ok\<close>
  is that property with I2 to I5.
\<close>

fun valid_port :: "pyval \<Rightarrow> bool" where
  "valid_port (PInt n) = (1 \<le> n \<and> n \<le> 65535)"
| "valid_port (PBool b) = b"
| "valid_port PNone = False"
| "valid_port (PStr s) = False"

definition ui_group_ok :: "pydict \<Rightarrow> bool" where
  "ui_group_ok d \<longleftrightarrow>
     valid_port (dict_get d ''ui_port'')
     \<and> (dict_get d ''protocol'' = PStr ''http'' \<or> dict_get d ''protocol'' = PStr ''https'')
     \<and> truthy (dict_get d ''icon'')
     \<and> truthy (dict_get d ''dashy_tile_section'')
     \<and> dict_get d ''dashy_tile_url_suffix'' \<noteq> PNone"

definition inv_ids :: "store \<Rightarrow> bool" where
  "inv_ids st \<longleftrightarrow>
     distinct (map fst st) \<and> (\<forall>cid \<in> set (map fst st). cid \<noteq> [] \<and> list_all id_char cid)"

definition ids_accepted :: "store \<Rightarrow> bool" where
  "ids_accepted st \<longleftrightarrow>
     distinct (map fst st) \<and> (\<forall>cid \<in> set (map fst st). cid \<noteq> [] \<and> re_match_id cid)"

definition inv_ports :: "store \<Rightarrow> bool" where
  "inv_ports st \<longleftrightarrow>
     (\<forall>(a, da) \<in> set st. \<forall>(b, db) \<in> set st.
        a \<noteq> b \<and> truthy (dict_get da ''has_ui'') \<and> truthy (dict_get db ''has_ui'')
        \<longrightarrow> \<not> py_eq (dict_get da ''ui_port'') (dict_get db ''ui_port''))"

definition inv_proxy :: "store \<Rightarrow> bool" where
  "inv_proxy st \<longleftrightarrow>
     (\<forall>(a, da) \<in> set st. \<forall>(b, db) \<in> set st.
        truthy (dict_get da ''is_reverse_proxy'') \<and> truthy (dict_get db ''is_reverse_proxy'')
        \<longrightarrow> a = b)"

definition inv_ui_group :: "store \<Rightarrow> bool" where
  "inv_ui_group st \<longleftrightarrow> (\<forall>(a, d) \<in> set st. truthy (dict_get d ''has_ui'') \<longrightarrow> ui_group_ok d)"

definition inv_names :: "store \<Rightarrow> bool" where
  "inv_names st \<longleftrightarrow> (\<forall>(a, d) \<in> set st. truthy (dict_get d ''name''))"

definition store_inv :: "store \<Rightarrow> bool" where
  "store_inv st \<longleftrightarrow> inv_ids st \<and> inv_ports st \<and> inv_proxy st \<and> inv_ui_group st \<and> inv_names st"

definition store_ok :: "store \<Rightarrow> bool" where
  "store_ok st \<longleftrightarrow> ids_accepted st \<and> inv_ports st \<and> inv_proxy st \<and> inv_ui_group st \<and> inv_names st"

text \<open>
  The worlds a manager gets to from an empty dictionary: through its three mutating
  operations, whatever their outcome, while the environment may change the files and the
  fault between two calls but not the dictionary.
\<close>

inductive reachable :: "(store \<Rightarrow> 't) \<Rightarrow> manager \<Rightarrow> 't world \<Rightarrow> bool"
  for dumpf :: "store \<Rightarrow> 't" and self :: manager where
  initial: "store_of self w = [] \<Longrightarrow> reachable dumpf self w"
| create: "reachable dumpf self w \<Longrightarrow> add_component dumpf self w cid data = (out, w')
           \<Longrightarrow> reachable dumpf self w'"
| update: "reachable dumpf self w \<Longrightarrow> update_component dumpf self w cid data = (out, w')
           \<Longrightarrow> reachable dumpf self w'"
| delete: "reachable dumpf self w \<Longrightarrow> delete_component dumpf self w cid = (out, w')
           \<Longrightarrow> reachable dumpf self w'"
| environment: "reachable dumpf self w \<Longrightarrow> heap w' = heap w \<Longrightarrow> reachable dumpf self w'"

section \<open>Predicates the claims are stated with\<close>

text \<open>
  Some step of the validation of a record raises: the port check or the field check of a
  record with a UI, the reverse-proxy check of a record that asks to be one, or the name
  check. \<open>edited\<close> is \<open>None\<close> for \<^verbatim>\<open>add_component\<close> and the identifier for
  \<^verbatim>\<open>update_component\<close>.
\<close>

definition data_check_fails :: "store \<Rightarrow> pydict \<Rightarrow> string option \<Rightarrow> bool" where
  "data_check_fails st data edited \<longleftrightarrow>
     (truthy (dict_get data ''has_ui'')
        \<and> (validate_ui_port_uniqueness st (dict_get data ''ui_port'') edited \<noteq> Inr ()
           \<or> validate_dashy_tile_fields data \<noteq> Inr ()))
     \<or> (truthy (dict_get data ''is_reverse_proxy'')
        \<and> validate_single_reverse_proxy st (dict_get data ''is_reverse_proxy'') edited \<noteq> Inr ())
     \<or> \<not> truthy (dict_get data ''name'')"



section \<open>Example data\<close>

text \<open>
  The scenario of the specification: a manager on an empty dictionary, the record
  \<^verbatim>\<open>nginx\<close> and a second reverse proxy. In the examples a text is what it parses to.
\<close>

definition ex_dump :: "store \<Rightarrow> parsed option" where
  "ex_dump st = Some (JObject st)"

definition ex_load :: "parsed option \<Rightarrow> parsed option" where
  "ex_load t = t"

definition ex_manager :: manager where
  "ex_manager = \<lparr>filepath = ''components_metadata.json'', components_data = 0\<rparr>"

definition ex_world :: "parsed option world" where
  "ex_world = \<lparr>heap = (\<lambda>r. []), fresh = 1, files = Map.empty, fault = NoFault\<rparr>"

definition nginx :: pydict where
  "nginx = [(''name'', PStr ''Nginx''), (''has_ui'', PBool True), (''ui_port'', PInt 80),
            (''protocol'', PStr ''http''), (''icon'', PStr ''nginx.png''),
            (''dashy_tile_section'', PStr ''Infra''), (''dashy_tile_url_suffix'', PStr ''''),
            (''is_reverse_proxy'', PBool True)]"

definition traefik :: pydict where
  "traefik = [(''name'', PStr ''Traefik''), (''has_ui'', PBool True), (''ui_port'', PInt 8080),
              (''protocol'', PStr ''https''), (''icon'', PStr ''traefik.png''),
              (''dashy_tile_section'', PStr ''Infra''), (''dashy_tile_url_suffix'', PStr ''''),
              (''is_reverse_proxy'', PBool True)]"

definition database :: pydict where
  "database = [(''name'', PStr ''Database''), (''has_ui'', PBool False), (''ui_port'', PInt 80)]"

definition ex_world1 :: "parsed option world" where
  "ex_world1 = snd (add_component ex_dump ex_manager ex_world ''nginx'' nginx)"

definition ex_world_nl :: "parsed option world" where
  "ex_world_nl = snd (add_component ex_dump ex_manager ex_world (''svc'' @ [CHR 0x0A]) nginx)"

definition ex_world_db :: "parsed option world" where
  "ex_world_db = snd (add_component ex_dump ex_manager ex_world ''db'' database)"

section \<open>Helper lemmas\<close>

subsection \<open>The validation functions\<close>

lemma ui_port_loop_ok:
  "ui_port_loop st p ex = Inr () \<longleftrightarrow>
     (\<forall>(k, d) \<in> set st. Some k \<noteq> ex \<longrightarrow>
        \<not> (truthy (dict_get d ''has_ui'') \<and> py_eq (dict_get d ''ui_port'') p))"
  by (induction st p ex rule: ui_port_loop.induct) auto

lemma reverse_proxy_loop_ok:
  "reverse_proxy_loop st ex = Inr () \<longleftrightarrow>
     (\<forall>(k, d) \<in> set st. Some k \<noteq> ex \<longrightarrow> \<not> truthy (dict_get d ''is_reverse_proxy''))"
  by (induction st ex rule: reverse_proxy_loop.induct) auto

lemma py_eq_sym: "py_eq a b = py_eq b a"
  by (cases a; cases b) auto

lemma valid_port_iff:
  "valid_port v \<longleftrightarrow> v \<noteq> PNone \<and> isinstance_int v \<and> 1 \<le> int_value v \<and> int_value v \<le> 65535"
  by (cases v) (auto split: if_splits)

lemma py_in_protocol:
  "py_in v [PStr ''http'', PStr ''https''] \<longleftrightarrow> v = PStr ''http'' \<or> v = PStr ''https''"
  by (auto simp: py_in_def)

lemma dashy_ok:
  "validate_dashy_tile_fields d = Inr () \<longleftrightarrow> (truthy (dict_get d ''has_ui'') \<longrightarrow> ui_group_ok d)"
  by (auto simp: validate_dashy_tile_fields_def ui_group_ok_def valid_port_iff py_in_protocol)

lemma then_check_ok: "then_check a b = Inr () \<longleftrightarrow> a = Inr () \<and> b = Inr ()"
  by (cases a) (auto simp: then_check_def)

lemma valid_port_not_None: "valid_port v \<Longrightarrow> v \<noteq> PNone"
  by (cases v) auto

lemma validate_data_ok:
  "validate_data st data ex = Inr () \<longleftrightarrow>
     (truthy (dict_get data ''has_ui'') \<longrightarrow>
        ui_group_ok data \<and>
        (\<forall>(k, d) \<in> set st. Some k \<noteq> ex \<longrightarrow>
           \<not> (truthy (dict_get d ''has_ui'')
              \<and> py_eq (dict_get d ''ui_port'') (dict_get data ''ui_port''))))
     \<and> (truthy (dict_get data ''is_reverse_proxy'') \<longrightarrow>
          (\<forall>(k, d) \<in> set st. Some k \<noteq> ex \<longrightarrow> \<not> truthy (dict_get d ''is_reverse_proxy'')))
     \<and> truthy (dict_get data ''name'')"
proof -
  have port: "ui_group_ok data \<Longrightarrow> dict_get data ''ui_port'' \<noteq> PNone"
    by (auto simp: ui_group_ok_def dest: valid_port_not_None)
  have ui: "then_check (validate_ui_port_uniqueness st (dict_get data ''ui_port'') ex)
                     (validate_dashy_tile_fields data) = Inr () \<longleftrightarrow>
     (truthy (dict_get data ''has_ui'') \<longrightarrow> ui_group_ok data) \<and>
     (dict_get data ''ui_port'' \<noteq> PNone \<longrightarrow> (\<forall>(k, d) \<in> set st. Some k \<noteq> ex \<longrightarrow>
           \<not> (truthy (dict_get d ''has_ui'')
              \<and> py_eq (dict_get d ''ui_port'') (dict_get data ''ui_port''))))"
    unfolding then_check_ok validate_ui_port_uniqueness_def
    by (simp add: dashy_ok ui_port_loop_ok) blast
  have px: "validate_single_reverse_proxy st (dict_get data ''is_reverse_proxy'') ex = Inr () \<longleftrightarrow>
     (truthy (dict_get data ''is_reverse_proxy'') \<longrightarrow>
          (\<forall>(k, d) \<in> set st. Some k \<noteq> ex \<longrightarrow> \<not> truthy (dict_get d ''is_reverse_proxy'')))"
    unfolding validate_single_reverse_proxy_def by (simp add: reverse_proxy_loop_ok)
  show ?thesis
  proof (cases "truthy (dict_get data ''has_ui'')")
    case True
    show ?thesis
      unfolding validate_data_def then_check_ok [of "if _ then _ else _"] then_check_ok [of _ "if _ then _ else _"]
      using True port by (simp add: ui px) blast
  next
    case False
    show ?thesis
      unfolding validate_data_def then_check_ok [of "if _ then _ else _"] then_check_ok [of _ "if _ then _ else _"]
      using False by (simp add: px)
  qed
qed

lemma validate_data_weaken:
  "validate_data st data None = Inr () \<Longrightarrow> validate_data st data ex = Inr ()"
  unfolding validate_data_ok by fast

lemma validate_component_id_ok:
  "validate_component_id st cid is_new = Inr () \<longleftrightarrow>
     cid \<noteq> [] \<and> re_match_id cid \<and> (is_new \<longleftrightarrow> map_of st cid = None)"
  by (auto simp: validate_component_id_def)

lemma set_update_distinct:
  "distinct (map fst st) \<Longrightarrow> (a, d) \<in> set (AList.update k v st)
   \<Longrightarrow> (a = k \<and> d = v) \<or> (a \<noteq> k \<and> (a, d) \<in> set st)"
  by (induction st) (auto split: if_splits simp: rev_image_eqI)

lemma set_delete_subset: "(a, d) \<in> set (AList.delete k st) \<Longrightarrow> (a, d) \<in> set st"
  by (induction st) (auto split: if_splits)

lemma store_ok_update:
  assumes inv: "store_ok st"
    and cid: "cid \<noteq> []" "re_match_id cid"
    and ok: "validate_data st data (Some cid) = Inr ()"
  shows "store_ok (AList.update cid data st)"
proof -
  let ?st' = "AList.update cid data st"
  from inv have dist: "distinct (map fst st)" by (simp add: store_ok_def ids_accepted_def)
  note mem = set_update_distinct [OF dist]
  have keys: "fst ` set ?st' = {cid} \<union> fst ` set st" by (rule AList.dom_update)
  have "ids_accepted ?st'"
    using inv cid keys by (auto simp: store_ok_def ids_accepted_def AList.distinct_update)
  moreover have "inv_names ?st'"
    using inv ok unfolding store_ok_def inv_names_def validate_data_ok
    by (auto dest!: mem)
  moreover have "inv_ui_group ?st'"
    using inv ok unfolding store_ok_def inv_ui_group_def validate_data_ok
    by (auto dest!: mem)
  moreover have "inv_proxy ?st'"
    using inv ok unfolding store_ok_def inv_proxy_def validate_data_ok
    by (fastforce dest!: mem)
  moreover have "inv_ports ?st'"
    unfolding inv_ports_def
  proof (clarify)
    fix a da b db
    assume A: "(a, da) \<in> set ?st'" and B: "(b, db) \<in> set ?st'" and ne: "a \<noteq> b"
      and ua: "truthy (dict_get da ''has_ui'')" and ub: "truthy (dict_get db ''has_ui'')"
      and eq: "py_eq (dict_get da ''ui_port'') (dict_get db ''ui_port'')"
    from inv have P: "inv_ports st" by (simp add: store_ok_def)
    from mem [OF A] mem [OF B] show False
    proof (elim disjE conjE)
      assume "a = cid" "da = data" "b = cid" "db = data"
      with ne show False by simp
    next
      assume "a = cid" "da = data" "b \<noteq> cid" "(b, db) \<in> set st"
      with ok ua ub eq show False
        unfolding validate_data_ok by (auto simp: py_eq_sym)
    next
      assume "a \<noteq> cid" "(a, da) \<in> set st" "b = cid" "db = data"
      with ok ua ub eq show False
        unfolding validate_data_ok by auto
    next
      assume "a \<noteq> cid" "(a, da) \<in> set st" "b \<noteq> cid" "(b, db) \<in> set st"
      with P ne ua ub eq show False
        unfolding inv_ports_def by blast
    qed
  qed
  ultimately show ?thesis by (simp add: store_ok_def)
qed

lemma store_ok_delete:
  assumes inv: "store_ok st"
  shows "store_ok (AList.delete cid st)"
proof -
  note mem = set_delete_subset
  have "ids_accepted (AList.delete cid st)"
    using inv unfolding store_ok_def ids_accepted_def
    by (auto simp: AList.distinct_delete dest!: mem)
  moreover have "inv_names (AList.delete cid st)"
    using inv unfolding store_ok_def inv_names_def by (auto dest!: mem)
  moreover have "inv_ui_group (AList.delete cid st)"
    using inv unfolding store_ok_def inv_ui_group_def by (auto dest!: mem)
  moreover have "inv_proxy (AList.delete cid st)"
    using inv unfolding store_ok_def inv_proxy_def by (fastforce dest!: mem)
  moreover have "inv_ports (AList.delete cid st)"
    using inv unfolding store_ok_def inv_ports_def by (fastforce dest!: mem)
  ultimately show ?thesis by (simp add: store_ok_def)
qed

lemma store_of_set_store: "store_of self (set_store self st w) = st"
  by (simp add: store_of_def set_store_def)

lemma heap_save_data: "heap (snd (save_data dumpf self w)) = heap w"
  by (simp add: save_data_def Let_def split: fault.splits)

lemma store_of_save_data: "store_of self (snd (save_data dumpf self w)) = store_of self w"
  by (simp add: store_of_def heap_save_data)

lemma store_ok_add_component:
  assumes "store_ok (store_of self w)"
  shows "store_ok (store_of self (snd (add_component dumpf self w cid data)))"
proof (cases "then_check (validate_component_id (store_of self w) cid True)
                         (validate_data (store_of self w) data None)")
  case (Inl e)
  with assms show ?thesis by (simp add: add_component_def)
next
  case (Inr u)
  then have "cid \<noteq> []" "re_match_id cid" "validate_data (store_of self w) data (Some cid) = Inr ()"
    by (auto simp: then_check_ok validate_component_id_ok intro: validate_data_weaken)
  from store_ok_update [OF assms this] Inr show ?thesis
    by (simp add: add_component_def store_of_save_data store_of_set_store)
qed

lemma store_ok_update_component:
  assumes "store_ok (store_of self w)"
  shows "store_ok (store_of self (snd (update_component dumpf self w cid data)))"
proof (cases "then_check (validate_component_id (store_of self w) cid False)
                         (validate_data (store_of self w) data (Some cid))")
  case (Inl e)
  with assms show ?thesis by (simp add: update_component_def)
next
  case (Inr u)
  then have "cid \<noteq> []" "re_match_id cid" "validate_data (store_of self w) data (Some cid) = Inr ()"
    by (auto simp: then_check_ok validate_component_id_ok)
  from store_ok_update [OF assms this] Inr show ?thesis
    by (simp add: update_component_def store_of_save_data store_of_set_store)
qed

lemma store_ok_delete_component:
  assumes "store_ok (store_of self w)"
  shows "store_ok (store_of self (snd (delete_component dumpf self w cid)))"
  using assms store_ok_delete [OF assms, of cid]
  by (simp add: delete_component_def store_of_save_data store_of_set_store)

lemma store_ok_empty: "store_ok []"
  by (simp add: store_ok_def ids_accepted_def inv_ports_def inv_proxy_def inv_ui_group_def
      inv_names_def)

subsection \<open>Errors and their classes\<close>

lemma sum_unit_cases: "(a :: error + unit) \<noteq> Inr () \<longleftrightarrow> (\<exists>e. a = Inl e)"
  by (cases a) auto

lemma then_check_Inl:
  "then_check a b = Inl e \<longleftrightarrow> a = Inl e \<or> (a = Inr () \<and> b = Inl e)"
  by (cases a) (auto simp: then_check_def)

lemma validate_component_id_class:
  "validate_component_id st cid is_new = Inl e \<Longrightarrow> class_of e = ValidationError"
  by (auto simp: validate_component_id_def split: if_splits)

lemma ui_port_loop_class: "ui_port_loop st p ex = Inl e \<Longrightarrow> class_of e = ValidationError"
  by (induction st p ex rule: ui_port_loop.induct) (auto split: if_splits)

lemma reverse_proxy_loop_class: "reverse_proxy_loop st ex = Inl e \<Longrightarrow> class_of e = ValidationError"
  by (induction st ex rule: reverse_proxy_loop.induct) (auto split: if_splits)

lemma validate_dashy_tile_fields_class:
  "validate_dashy_tile_fields d = Inl e \<Longrightarrow> class_of e = ValidationError"
  by (auto simp: validate_dashy_tile_fields_def split: if_splits)

lemma validate_data_class:
  "validate_data st data ex = Inl e \<Longrightarrow> class_of e = ValidationError"
  unfolding validate_data_def validate_ui_port_uniqueness_def validate_single_reverse_proxy_def
  by (auto simp: then_check_Inl split: if_splits dest: ui_port_loop_class
      reverse_proxy_loop_class validate_dashy_tile_fields_class)

lemma validate_data_fails:
  "data_check_fails st data ex \<longleftrightarrow> validate_data st data ex \<noteq> Inr ()"
proof -
  have "validate_data st data ex = Inr () \<longleftrightarrow> \<not> data_check_fails st data ex"
    unfolding validate_data_def data_check_fails_def
      then_check_ok [of "if _ then _ else _"] then_check_ok [of _ "if _ then _ else _"]
    by (simp add: then_check_ok)
  then show ?thesis by simp
qed

lemma save_data_class:
  "save_data dumpf self w = (Raised e, w') \<Longrightarrow> class_of e = PersistError"
  by (auto simp: save_data_def Let_def split: fault.splits)

lemma checks_fail:
  assumes "validate_component_id st cid is_new \<noteq> Inr () \<or> data_check_fails st data ex"
  shows "\<exists>e. then_check (validate_component_id st cid is_new) (validate_data st data ex) = Inl e
             \<and> class_of e = ValidationError"
proof (cases "validate_component_id st cid is_new")
  case (Inl e)
  then show ?thesis by (auto simp: then_check_Inl dest: validate_component_id_class)
next
  case (Inr u)
  with assms have "validate_data st data ex \<noteq> Inr ()" by (simp add: validate_data_fails)
  then obtain e where "validate_data st data ex = Inl e" by (auto simp: sum_unit_cases)
  with Inr show ?thesis by (auto simp: then_check_Inl dest: validate_data_class)
qed

subsection \<open>Committing a change\<close>

lemma fst_save_data:
  "fst (save_data dumpf self w) = (if fault w = NoFault then Returned else Raised SaveFailed)"
  by (simp add: save_data_def Let_def split: fault.splits)

lemma fault_set_store: "fault (set_store self st w) = fault w"
  by (simp add: set_store_def)

lemma commit_result:
  "fst (save_data dumpf self (set_store self st w))
     = (if fault w = NoFault then Returned else Raised SaveFailed)
   \<and> store_of self (snd (save_data dumpf self (set_store self st w))) = st"
  by (simp add: fst_save_data fault_set_store store_of_save_data store_of_set_store)

subsection \<open>The field check names a field that offends\<close>


subsection \<open>The identifier pattern\<close>

lemma re_match_rest_iff:
  "re_match_rest cs \<longleftrightarrow>
     list_all id_char cs \<or> (\<exists>body. cs = body @ [CHR 0x0A] \<and> list_all id_char body)"
proof (induction cs)
  case Nil
  then show ?case by simp
next
  case (Cons c cs)
  show ?case
  proof (cases "id_char c")
    case True
    have "(\<exists>body. c # cs = body @ [CHR 0x0A] \<and> list_all id_char body)
          \<longleftrightarrow> (\<exists>body. cs = body @ [CHR 0x0A] \<and> list_all id_char body)"
    proof
      assume "\<exists>body. c # cs = body @ [CHR 0x0A] \<and> list_all id_char body"
      then obtain body where b: "c # cs = body @ [CHR 0x0A]" "list_all id_char body" by blast
      from True have "c \<noteq> CHR 0x0A" by (auto simp: id_char_def)
      with b(1) obtain body' where "body = c # body'" by (cases body) auto
      with b show "\<exists>body. cs = body @ [CHR 0x0A] \<and> list_all id_char body" by auto
    next
      assume "\<exists>body. cs = body @ [CHR 0x0A] \<and> list_all id_char body"
      then obtain body where "cs = body @ [CHR 0x0A]" "list_all id_char body" by blast
      with True have "c # cs = (c # body) @ [CHR 0x0A] \<and> list_all id_char (c # body)" by simp
      then show "\<exists>body. c # cs = body @ [CHR 0x0A] \<and> list_all id_char body" by blast
    qed
    with True Cons.IH show ?thesis by simp
  next
    case False
    have "(\<exists>body. c # cs = body @ [CHR 0x0A] \<and> list_all id_char body) \<longleftrightarrow> c = CHR 0x0A \<and> cs = []"
    proof
      assume "\<exists>body. c # cs = body @ [CHR 0x0A] \<and> list_all id_char body"
      then obtain body where b: "c # cs = body @ [CHR 0x0A]" "list_all id_char body" by blast
      show "c = CHR 0x0A \<and> cs = []"
      proof (cases body)
        case Nil
        with b show ?thesis by simp
      next
        case (Cons x xs)
        with b False show ?thesis by simp
      qed
    next
      assume "c = CHR 0x0A \<and> cs = []"
      then have "c # cs = [] @ [CHR 0x0A] \<and> list_all id_char []" by simp
      then show "\<exists>body. c # cs = body @ [CHR 0x0A] \<and> list_all id_char body" by blast
    qed
    with False show ?thesis by simp
  qed
qed

lemma re_match_id_iff:
  "re_match_id s \<longleftrightarrow>
     (\<exists>body. body \<noteq> [] \<and> list_all id_char body \<and> (s = body \<or> s = body @ [CHR 0x0A]))"
proof (cases s)
  case Nil
  then show ?thesis by (simp add: re_match_id_def)
next
  case (Cons c cs)
  show ?thesis
  proof
    assume "re_match_id s"
    with Cons have c: "id_char c" and r: "re_match_rest cs" by (simp_all add: re_match_id_def)
    from r consider "list_all id_char cs"
      | body where "cs = body @ [CHR 0x0A]" "list_all id_char body"
      unfolding re_match_rest_iff by blast
    then show "\<exists>body. body \<noteq> [] \<and> list_all id_char body \<and> (s = body \<or> s = body @ [CHR 0x0A])"
    proof cases
      case 1
      with c Cons have "s \<noteq> [] \<and> list_all id_char s \<and> (s = s \<or> s = s @ [CHR 0x0A])" by simp
      then show ?thesis by blast
    next
      case 2
      with c Cons have "c # body \<noteq> [] \<and> list_all id_char (c # body)
          \<and> (s = c # body \<or> s = (c # body) @ [CHR 0x0A])" by simp
      then show ?thesis by blast
    qed
  next
    assume "\<exists>body. body \<noteq> [] \<and> list_all id_char body \<and> (s = body \<or> s = body @ [CHR 0x0A])"
    then obtain body where b: "body \<noteq> []" "list_all id_char body"
      "s = body \<or> s = body @ [CHR 0x0A]" by blast
    from b(1) obtain x xs where body: "body = x # xs" by (cases body) auto
    with b Cons have c: "c = x" "id_char c" and cs: "cs = xs \<or> cs = xs @ [CHR 0x0A]" by auto
    from b(2) body have "list_all id_char xs" by simp
    with cs have "re_match_rest cs" unfolding re_match_rest_iff by blast
    with c Cons show "re_match_id s" by (simp add: re_match_id_def)
  qed
qed

subsection \<open>The example worlds\<close>

lemmas ex_eval =
  add_component_def update_component_def delete_component_def then_check_def
  validate_component_id_def re_match_id_def id_char_def validate_data_def
  validate_ui_port_uniqueness_def validate_single_reverse_proxy_def
  validate_dashy_tile_fields_def py_in_def dict_get_def store_of_def set_store_def
  save_data_def ex_world_def ex_manager_def ex_dump_def ex_load_def

lemma ex_world1_eq:
  "ex_world1 = \<lparr>heap = (\<lambda>r. [])(0 := [(''nginx'', nginx)]), fresh = 1,
                 files = [''components_metadata.json'' \<mapsto> Text (Some (JObject [(''nginx'', nginx)]))],
                 fault = NoFault\<rparr>"
  by (simp add: ex_world1_def ex_eval nginx_def)

lemma ex_world_db_eq:
  "ex_world_db = \<lparr>heap = (\<lambda>r. [])(0 := [(''db'', database)]), fresh = 1,
                 files = [''components_metadata.json'' \<mapsto> Text (Some (JObject [(''db'', database)]))],
                 fault = NoFault\<rparr>"
  by (simp add: ex_world_db_def ex_eval database_def)

lemma ex_world1_store: "store_of ex_manager ex_world1 = [(''nginx'', nginx)]"
  by (simp add: ex_world1_eq store_of_def ex_manager_def)

lemma ex_world_db_store: "store_of ex_manager ex_world_db = [(''db'', database)]"
  by (simp add: ex_world_db_eq store_of_def ex_manager_def)

lemma store_ok_ex1: "store_ok [(''nginx'', nginx)]"
  by (simp add: store_ok_def ids_accepted_def inv_ports_def inv_proxy_def inv_ui_group_def
      inv_names_def ui_group_ok_def re_match_id_def id_char_def dict_get_def nginx_def)

subsection \<open>What every reachable world satisfies\<close>

text \<open>
  Every world reachable from an empty dictionary satisfies I2 to I5, and its identifiers
  are distinct, non-empty and accepted by the identifier test. A store that satisfies I1
  to I5 is such a store.
\<close>

lemma reachable_store_ok:
  "reachable dumpf self w \<Longrightarrow> store_ok (store_of self w)"
proof (induction rule: reachable.induct)
  case (initial w)
  then show ?case by (simp add: store_ok_empty)
next
  case (create w cid data out w')
  from store_ok_add_component [OF create.IH, of dumpf cid data] create.hyps(2)
  show ?case by simp
next
  case (update w cid data out w')
  from store_ok_update_component [OF update.IH, of dumpf cid data] update.hyps(2)
  show ?case by simp
next
  case (delete w cid out w')
  from store_ok_delete_component [OF delete.IH, of dumpf cid] delete.hyps(2)
  show ?case by simp
next
  case (environment w w')
  then show ?case by (simp add: store_of_def)
qed

lemma id_chars_match: "cid \<noteq> [] \<Longrightarrow> list_all id_char cid \<Longrightarrow> re_match_id cid"
  unfolding re_match_id_iff by blast

lemma store_inv_imp_store_ok: "store_inv st \<Longrightarrow> store_ok st"
  by (auto simp: store_inv_def store_ok_def inv_ids_def ids_accepted_def intro: id_chars_match)

lemma ex_world_nl_store: "store_of ex_manager ex_world_nl = [(''svc'' @ [CHR 0x0A], nginx)]"
  by (simp add: ex_world_nl_def ex_eval nginx_def)

section \<open>The claims\<close>

text \<open>
  C1. The claim asks that, from the empty store on, every store satisfies I1 to I5. I2 to
  I5 hold in every reachable world (\<open>reachable_store_ok\<close>), and so does I1 for every
  identifier but one kind: \<^verbatim>\<open>_validate_component_id\<close> lets an identifier with a final
  newline through, so the store reached from the empty one by a Create under
  \<^verbatim>\<open>"svc\n"\<close> has an identifier with a character that is neither a lowercase letter,
  nor a digit, nor a hyphen, and I1 fails there.
\<close>

theorem reachable_store_breaks_inv_ids:
  "reachable ex_dump ex_manager ex_world_nl
   \<and> fst (add_component ex_dump ex_manager ex_world (''svc'' @ [CHR 0x0A]) nginx) = Returned
   \<and> store_of ex_manager ex_world_nl = [(''svc'' @ [CHR 0x0A], nginx)]
   \<and> \<not> inv_ids (store_of ex_manager ex_world_nl)
   \<and> \<not> store_inv (store_of ex_manager ex_world_nl)"
proof -
  have r0: "reachable ex_dump ex_manager ex_world"
    by (rule reachable.initial) (simp add: store_of_def ex_world_def)
  have r1: "reachable ex_dump ex_manager ex_world_nl"
    unfolding ex_world_nl_def by (rule reachable.create [OF r0]) (rule surjective_pairing)
  have ret: "fst (add_component ex_dump ex_manager ex_world (''svc'' @ [CHR 0x0A]) nginx) = Returned"
    by (simp add: ex_eval nginx_def)
  have bad: "\<not> inv_ids [(''svc'' @ [CHR 0x0A], nginx)]"
    by (simp add: inv_ids_def id_char_def)
  from r1 ret bad show ?thesis by (simp add: ex_world_nl_store store_inv_def)
qed

text \<open>
  So the invariant of C1 is not one of the reachable worlds: some reachable world breaks
  it.
\<close>

theorem reachable_store_breaks_inv_ids_witness:
  "\<exists>w. reachable ex_dump ex_manager w \<and> \<not> store_inv (store_of ex_manager w)"
  using reachable_store_breaks_inv_ids by blast

text \<open>
  C2. When a validation step of Create or Update fails, or the identifier of an Update
  or a Delete is unknown, the operation raises a validation error and the world is the
  one before the call: the dictionary is untouched and no file is written. Conversely, a
  call that ends in a validation error has changed nothing.
\<close>

theorem validation_failure_leaves_world:
  "(validate_component_id (store_of self w) cid True \<noteq> Inr ()
      \<or> data_check_fails (store_of self w) data None
    \<longrightarrow> (\<exists>e. add_component dumpf self w cid data = (Raised e, w) \<and> class_of e = ValidationError))
   \<and> (validate_component_id (store_of self w) cid False \<noteq> Inr ()
      \<or> data_check_fails (store_of self w) data (Some cid)
    \<longrightarrow> (\<exists>e. update_component dumpf self w cid data = (Raised e, w) \<and> class_of e = ValidationError))
   \<and> (map_of (store_of self w) cid = None
    \<longrightarrow> update_component dumpf self w cid data
          = (Raised (if cid = [] then IdEmpty else if re_match_id cid then IdUnknown cid else IdInvalid), w)
        \<and> delete_component dumpf self w cid = (Raised (DeleteUnknown cid), w))
   \<and> (\<forall>e w'. class_of e = ValidationError \<longrightarrow>
         (add_component dumpf self w cid data = (Raised e, w') \<longrightarrow> w' = w)
       \<and> (update_component dumpf self w cid data = (Raised e, w') \<longrightarrow> w' = w)
       \<and> (delete_component dumpf self w cid = (Raised e, w') \<longrightarrow> w' = w))"
proof (intro conjI impI allI)
  assume "validate_component_id (store_of self w) cid True \<noteq> Inr ()
      \<or> data_check_fails (store_of self w) data None"
  from checks_fail [OF this]
  show "\<exists>e. add_component dumpf self w cid data = (Raised e, w) \<and> class_of e = ValidationError"
    by (auto simp: add_component_def)
next
  assume "validate_component_id (store_of self w) cid False \<noteq> Inr ()
      \<or> data_check_fails (store_of self w) data (Some cid)"
  from checks_fail [OF this]
  show "\<exists>e. update_component dumpf self w cid data = (Raised e, w) \<and> class_of e = ValidationError"
    by (auto simp: update_component_def)
next
  assume "map_of (store_of self w) cid = None"
  then show "update_component dumpf self w cid data
          = (Raised (if cid = [] then IdEmpty else if re_match_id cid then IdUnknown cid else IdInvalid), w)"
    by (simp add: update_component_def validate_component_id_def then_check_def)
next
  assume "map_of (store_of self w) cid = None"
  then show "delete_component dumpf self w cid = (Raised (DeleteUnknown cid), w)"
    by (simp add: delete_component_def)
next
  fix e w'
  assume v: "class_of e = ValidationError"
    and r: "add_component dumpf self w cid data = (Raised e, w')"
  show "w' = w"
  proof (cases "then_check (validate_component_id (store_of self w) cid True)
                           (validate_data (store_of self w) data None)")
    case (Inl e')
    with r show ?thesis by (simp add: add_component_def)
  next
    case (Inr u)
    with r v show ?thesis by (auto simp: add_component_def dest: save_data_class)
  qed
next
  fix e w'
  assume v: "class_of e = ValidationError"
    and r: "update_component dumpf self w cid data = (Raised e, w')"
  show "w' = w"
  proof (cases "then_check (validate_component_id (store_of self w) cid False)
                           (validate_data (store_of self w) data (Some cid))")
    case (Inl e')
    with r show ?thesis by (simp add: update_component_def)
  next
    case (Inr u)
    with r v show ?thesis by (auto simp: update_component_def dest: save_data_class)
  qed
next
  fix e w'
  assume v: "class_of e = ValidationError"
    and r: "delete_component dumpf self w cid = (Raised e, w')"
  then show "w' = w"
    by (auto simp: delete_component_def split: if_splits dest: save_data_class)
qed

theorem validation_failure_leaves_world_witness:
  "(\<exists>e. add_component ex_dump ex_manager ex_world1 ''traefik'' traefik = (Raised e, ex_world1)
        \<and> class_of e = ValidationError)
   \<and> update_component ex_dump ex_manager ex_world1 ''ghost'' nginx
       = (Raised (IdUnknown ''ghost''), ex_world1)
   \<and> delete_component ex_dump ex_manager ex_world1 ''ghost'' = (Raised (DeleteUnknown ''ghost''), ex_world1)"
proof -
  have f: "data_check_fails (store_of ex_manager ex_world1) traefik None"
    by (simp add: ex_world1_store data_check_fails_def validate_single_reverse_proxy_def
        dict_get_def traefik_def nginx_def)
  have g: "map_of (store_of ex_manager ex_world1) ''ghost'' = None"
    by (simp add: ex_world1_store)
  have r: "re_match_id ''ghost''" by (simp add: re_match_id_def id_char_def)
  from validation_failure_leaves_world [of ex_manager ex_world1 "''traefik''" traefik ex_dump] f
  have a: "\<exists>e. add_component ex_dump ex_manager ex_world1 ''traefik'' traefik = (Raised e, ex_world1)
        \<and> class_of e = ValidationError" by blast
  from validation_failure_leaves_world [of ex_manager ex_world1 "''ghost''" nginx ex_dump] g r
  have b: "update_component ex_dump ex_manager ex_world1 ''ghost'' nginx
       = (Raised (IdUnknown ''ghost''), ex_world1)
     \<and> delete_component ex_dump ex_manager ex_world1 ''ghost'' = (Raised (DeleteUnknown ''ghost''), ex_world1)"
    by simp
  from a b show ?thesis by blast
qed

text \<open>
  C3. In a store that satisfies I2 to I5 and whose identifiers the manager accepts (so in
  every store that satisfies I1 to I5), an Update of the record under \<open>cid\<close>
  that keeps the port of the stored record (both with a UI) and is a reverse proxy only if
  the stored record is one passes the uniqueness and singleton checks, since both skip
  \<open>cid\<close>. With valid fields of its own the update is committed: the record is replaced,
  and the call returns unless the write fails.
\<close>

theorem update_keeping_own_port_and_proxy:
  assumes inv: "store_ok (store_of self w)"
    and old: "map_of (store_of self w) cid = Some old"
    and port: "truthy (dict_get data ''has_ui'') \<longrightarrow>
                 truthy (dict_get old ''has_ui'')
                 \<and> dict_get data ''ui_port'' = dict_get old ''ui_port'' \<and> ui_group_ok data"
    and proxy: "truthy (dict_get data ''is_reverse_proxy'') \<longrightarrow>
                  truthy (dict_get old ''is_reverse_proxy'')"
    and name: "truthy (dict_get data ''name'')"
  shows "fst (update_component dumpf self w cid data)
           = (if fault w = NoFault then Returned else Raised SaveFailed)
         \<and> store_of self (snd (update_component dumpf self w cid data))
           = AList.update cid data (store_of self w)"
proof -
  let ?st = "store_of self w"
  from old have mem: "(cid, old) \<in> set ?st" by (rule map_of_SomeD)
  from inv mem have id: "cid \<noteq> []" "re_match_id cid"
    by (auto simp: store_ok_def ids_accepted_def)
  from id old have idok: "validate_component_id ?st cid False = Inr ()"
    by (simp add: validate_component_id_ok)
  have ports: "\<not> (truthy (dict_get d ''has_ui'')
                  \<and> py_eq (dict_get d ''ui_port'') (dict_get data ''ui_port''))"
    if "truthy (dict_get data ''has_ui'')" "(k, d) \<in> set ?st" "k \<noteq> cid" for k d
  proof
    assume c: "truthy (dict_get d ''has_ui'')
                  \<and> py_eq (dict_get d ''ui_port'') (dict_get data ''ui_port'')"
    from inv have "inv_ports ?st" by (simp add: store_ok_def)
    with that mem port c show False unfolding inv_ports_def by fastforce
  qed
  have proxies: "\<not> truthy (dict_get d ''is_reverse_proxy'')"
    if "truthy (dict_get data ''is_reverse_proxy'')" "(k, d) \<in> set ?st" "k \<noteq> cid" for k d
  proof
    assume c: "truthy (dict_get d ''is_reverse_proxy'')"
    from inv have "inv_proxy ?st" by (simp add: store_ok_def)
    with that mem proxy c show False unfolding inv_proxy_def by fastforce
  qed
  have "validate_data ?st data (Some cid) = Inr ()"
    unfolding validate_data_ok using port name ports proxies by auto
  with idok have "then_check (validate_component_id ?st cid False)
                    (validate_data ?st data (Some cid)) = Inr ()"
    by (simp add: then_check_ok)
  then show ?thesis by (simp add: update_component_def commit_result)
qed

theorem update_keeping_own_port_and_proxy_witness:
  "map_of (store_of ex_manager ex_world1) ''nginx'' = Some nginx
   \<and> dict_get (AList.update ''name'' (PStr ''Web'') nginx) ''ui_port'' = dict_get nginx ''ui_port''
   \<and> fst (update_component ex_dump ex_manager ex_world1 ''nginx''
            (AList.update ''name'' (PStr ''Web'') nginx)) = Returned
   \<and> store_of ex_manager (snd (update_component ex_dump ex_manager ex_world1 ''nginx''
            (AList.update ''name'' (PStr ''Web'') nginx)))
       = [(''nginx'', AList.update ''name'' (PStr ''Web'') nginx)]"
proof -
  let ?d = "AList.update ''name'' (PStr ''Web'') nginx"
  have inv: "store_ok (store_of ex_manager ex_world1)"
    by (simp add: ex_world1_store store_ok_ex1)
  have old: "map_of (store_of ex_manager ex_world1) ''nginx'' = Some nginx"
    by (simp add: ex_world1_store)
  have port: "truthy (dict_get ?d ''has_ui'') \<longrightarrow>
                 truthy (dict_get nginx ''has_ui'')
                 \<and> dict_get ?d ''ui_port'' = dict_get nginx ''ui_port'' \<and> ui_group_ok ?d"
    by (simp add: dict_get_def nginx_def ui_group_ok_def)
  have proxy: "truthy (dict_get ?d ''is_reverse_proxy'') \<longrightarrow>
                  truthy (dict_get nginx ''is_reverse_proxy'')"
    by (simp add: dict_get_def nginx_def)
  have name: "truthy (dict_get ?d ''name'')" by (simp add: dict_get_def nginx_def)
  have nf: "fault ex_world1 = NoFault" by (simp add: ex_world1_eq)
  have same: "dict_get ?d ''ui_port'' = dict_get nginx ''ui_port''"
    by (simp add: dict_get_def nginx_def)
  from update_keeping_own_port_and_proxy [OF inv old port proxy name, of ex_dump] nf old same
  show ?thesis by (simp add: ex_world1_store)
qed

text \<open>
  C4. The claim asks that Create fails on every identifier with a character outside
  lowercase letters, digits and the hyphen. \<^verbatim>\<open>_validate_component_id\<close> tests with
  \<^verbatim>\<open>re.match(r"^[a-z0-9-]+$", ...)\<close>, and \<^verbatim>\<open>$\<close> also matches before a final newline
  (\<open>re_match_id_iff\<close>): Create on the empty store with the identifier \<^verbatim>\<open>"svc\n"\<close>
  returns, stores the record and writes the file.
\<close>

theorem create_accepts_trailing_newline:
  "add_component ex_dump ex_manager ex_world (''svc'' @ [CHR 0x0A]) nginx
     = (Returned, ex_world\<lparr>heap := (heap ex_world)(0 := [(''svc'' @ [CHR 0x0A], nginx)]),
                          files := [''components_metadata.json'' \<mapsto>
                                      Text (Some (JObject [(''svc'' @ [CHR 0x0A], nginx)]))]\<rparr>)
   \<and> \<not> id_char (CHR 0x0A)"
  by (simp add: add_component_def then_check_def validate_component_id_def
        re_match_id_def id_char_def validate_data_def validate_ui_port_uniqueness_def
        validate_single_reverse_proxy_def validate_dashy_tile_fields_def py_in_def dict_get_def
        nginx_def store_of_def set_store_def save_data_def ex_world_def ex_manager_def ex_dump_def)

text \<open>
  The rest of C4 holds: an identifier made of the allowed characters only is accepted
  when nothing else is violated, and an identifier the pattern does not match is refused
  before anything else is looked at.
\<close>

lemma create_with_valid_id:
  assumes "cid \<noteq> []" "list_all id_char cid" "map_of (store_of self w) cid = None"
    and "validate_data (store_of self w) data None = Inr ()"
  shows "fst (add_component dumpf self w cid data)
           = (if fault w = NoFault then Returned else Raised SaveFailed)
         \<and> store_of self (snd (add_component dumpf self w cid data))
           = AList.update cid data (store_of self w)"
proof -
  from assms(1,2) have "re_match_id cid" unfolding re_match_id_iff by blast
  with assms have "validate_component_id (store_of self w) cid True = Inr ()"
    by (simp add: validate_component_id_ok)
  with assms(4) show ?thesis by (simp add: add_component_def then_check_def commit_result)
qed

lemma create_with_unmatched_id:
  "\<not> re_match_id cid \<Longrightarrow>
     add_component dumpf self w cid data = (Raised (if cid = [] then IdEmpty else IdInvalid), w)"
  by (simp add: add_component_def validate_component_id_def then_check_def)



text \<open>
  C6. Load: an absent file gives a manager on an empty dictionary; a file whose text
  parses to a JSON object gives a manager on that object; an unreadable file, a text that
  does not parse and a JSON value that is not an object give a load error and no manager.
\<close>

theorem load_cases:
  "(files w path = None \<longrightarrow>
      (\<exists>m w'. init_manager loadf path w = Inr (m, w') \<and> store_of m w' = [] \<and> filepath m = path))
   \<and> (files w path = Some (Text t) \<and> loadf t = Some (JObject data) \<longrightarrow>
      (\<exists>m w'. init_manager loadf path w = Inr (m, w') \<and> store_of m w' = data \<and> filepath m = path))
   \<and> (files w path = Some Unreadable \<or> files w path = Some Truncated
       \<or> (files w path = Some (Text t) \<and> (loadf t = None \<or> loadf t = Some JOther)) \<longrightarrow>
      (\<exists>e. init_manager loadf path w = Inl e \<and> class_of e = LoadError))"
  by (auto simp: init_manager_def load_data_def store_of_def)

theorem load_cases_witness:
  "(\<exists>m w'. init_manager ex_load ''components_metadata.json'' ex_world = Inr (m, w')
            \<and> store_of m w' = [])
   \<and> (\<exists>m w'. init_manager ex_load ''components_metadata.json'' ex_world1 = Inr (m, w')
            \<and> store_of m w' = [(''nginx'', nginx)])
   \<and> (\<exists>e. init_manager ex_load ''components_metadata.json''
              (ex_world\<lparr>files := [''components_metadata.json'' \<mapsto> Text (Some JOther)]\<rparr>) = Inl e
          \<and> class_of e = LoadError)
   \<and> (\<exists>e. init_manager ex_load ''components_metadata.json''
              (ex_world\<lparr>files := [''components_metadata.json'' \<mapsto> Text None]\<rparr>) = Inl e
          \<and> class_of e = LoadError)"
proof -
  let ?p = "''components_metadata.json''"
  let ?w2 = "ex_world\<lparr>files := [?p \<mapsto> Text (Some JOther)]\<rparr>"
  let ?w3 = "ex_world\<lparr>files := [?p \<mapsto> Text None]\<rparr>"
  have 0: "files ex_world ?p = None" by (simp add: ex_world_def)
  have 1: "files ex_world1 ?p = Some (Text (Some (JObject [(''nginx'', nginx)])))
           \<and> ex_load (Some (JObject [(''nginx'', nginx)])) = Some (JObject [(''nginx'', nginx)])"
    by (simp add: ex_world1_eq ex_load_def)
  have 2: "files ?w2 ?p = Some (Text (Some JOther)) \<and> (ex_load (Some JOther) = None \<or> ex_load (Some JOther) = Some JOther)"
    by (simp add: ex_load_def)
  have 3: "files ?w3 ?p = Some (Text None) \<and> (ex_load None = None \<or> ex_load None = Some JOther)"
    by (simp add: ex_load_def)
  from load_cases [of ex_world ?p ex_load] 0
  have a: "\<exists>m w'. init_manager ex_load ?p ex_world = Inr (m, w') \<and> store_of m w' = []" by blast
  from load_cases [of ex_world1 ?p ex_load "Some (JObject [(''nginx'', nginx)])" "[(''nginx'', nginx)]"] 1
  have b: "\<exists>m w'. init_manager ex_load ?p ex_world1 = Inr (m, w') \<and> store_of m w' = [(''nginx'', nginx)]"
    by blast
  from load_cases [of ?w2 ?p ex_load "Some JOther"] 2
  have c: "\<exists>e. init_manager ex_load ?p ?w2 = Inl e \<and> class_of e = LoadError" by blast
  from load_cases [of ?w3 ?p ex_load "None"] 3
  have d: "\<exists>e. init_manager ex_load ?p ?w3 = Inl e \<and> class_of e = LoadError" by blast
  from a b c d show ?thesis by blast
qed

text \<open>
  C7. Persisting the dictionary and loading from the same path gives the dictionary back:
  \<^verbatim>\<open>_save_data\<close> writes the whole dictionary to the path \<^verbatim>\<open>_load_data\<close> reads, and
  \<^verbatim>\<open>_load_data\<close> adopts what it parses unchanged. That \<^verbatim>\<open>json.load\<close> reads back what
  \<^verbatim>\<open>json.dump\<close> wrote is the library's part and a hypothesis here.
\<close>

theorem persist_then_load:
  assumes "fault w = NoFault"
    and "loadf (dumpf (store_of self w)) = Some (JObject (store_of self w))"
  shows "fst (save_data dumpf self w) = Returned
         \<and> load_data loadf (files (snd (save_data dumpf self w))) (filepath self)
             = Inr (store_of self w)
         \<and> (\<exists>m w'. init_manager loadf (filepath self) (snd (save_data dumpf self w)) = Inr (m, w')
                    \<and> store_of m w' = store_of self w)"
  using assms
  by (simp add: save_data_def Let_def init_manager_def load_data_def store_of_def)

theorem persist_then_load_witness:
  "fault ex_world1 = NoFault
   \<and> fst (save_data ex_dump ex_manager ex_world1) = Returned
   \<and> load_data ex_load (files (snd (save_data ex_dump ex_manager ex_world1))) (filepath ex_manager)
       = Inr [(''nginx'', nginx)]"
proof -
  have nf: "fault ex_world1 = NoFault" by (simp add: ex_world1_eq)
  have rt: "ex_load (ex_dump (store_of ex_manager ex_world1))
              = Some (JObject (store_of ex_manager ex_world1))"
    by (simp add: ex_load_def ex_dump_def)
  from persist_then_load [of ex_world1 ex_load ex_dump ex_manager] nf rt
  show ?thesis by (simp add: ex_world1_store)
qed

text \<open>
  C8, as the code has it. \<^verbatim>\<open>get_all_components\<close> returns the manager's own dictionary
  object, neither a copy nor a read-only view: an assignment through the returned
  reference is an assignment in the manager's dictionary, with no validation and no write
  to the file.
\<close>

theorem get_all_components_aliases_store:
  "get_all_components self w = components_data self
   \<and> heap w (get_all_components self w) = store_of self w
   \<and> store_of self (dict_setitem (get_all_components self w) k v w)
       = AList.update k v (store_of self w)
   \<and> files (dict_setitem (get_all_components self w) k v w) = files w"
  by (simp add: get_all_components_def store_of_def dict_setitem_def)

text \<open>
  C8 as stated fails: after \<^verbatim>\<open>get_all_components()["Bad_ID"] = {}\<close> the manager's
  dictionary has changed and holds a record that no validation would have let in.
\<close>

theorem get_all_components_copy_counterexample:
  "store_of ex_manager (dict_setitem (get_all_components ex_manager ex_world1) ''Bad_ID'' [] ex_world1)
     \<noteq> store_of ex_manager ex_world1
   \<and> \<not> store_ok (store_of ex_manager
          (dict_setitem (get_all_components ex_manager ex_world1) ''Bad_ID'' [] ex_world1))"
proof -
  have s: "store_of ex_manager (dict_setitem (get_all_components ex_manager ex_world1) ''Bad_ID'' [] ex_world1)
      = [(''nginx'', nginx), (''Bad_ID'', [])]"
    using ex_world1_store
    by (simp add: store_of_def dict_setitem_def get_all_components_def)
  have "\<not> inv_names [(''nginx'', nginx), (''Bad_ID'', [])]"
    by (simp add: inv_names_def dict_get_def)
  with s ex_world1_store show ?thesis by (simp add: store_ok_def)
qed

text \<open>
  C9. Create, Update and Delete on \<open>cid\<close> leave the record under every other identifier
  as it was, whatever the outcome of the call.
\<close>

theorem other_records_unchanged:
  "cid' \<noteq> cid \<Longrightarrow>
     get_component self (snd (add_component dumpf self w cid data)) cid' = get_component self w cid'
     \<and> get_component self (snd (update_component dumpf self w cid data)) cid'
         = get_component self w cid'
     \<and> get_component self (snd (delete_component dumpf self w cid)) cid' = get_component self w cid'"
  by (simp add: get_component_def add_component_def update_component_def delete_component_def
      store_of_save_data store_of_set_store AList.update_conv' AList.delete_conv'
      split: sum.splits)

theorem other_records_unchanged_witness:
  "get_component ex_manager (snd (add_component ex_dump ex_manager ex_world1 ''db'' database)) ''nginx''
     = Some nginx
   \<and> get_component ex_manager (snd (delete_component ex_dump ex_manager ex_world1 ''db'')) ''nginx''
     = Some nginx"
proof -
  have ne: "''nginx'' \<noteq> ''db''" by simp
  have g: "get_component ex_manager ex_world1 ''nginx'' = Some nginx"
    by (simp add: get_component_def ex_world1_store)
  from other_records_unchanged [OF ne, of ex_manager ex_dump ex_world1 database] g
  show ?thesis by simp
qed

text \<open>
  C10. The port uniqueness check looks only at records with a UI: when every stored
  record with the port of the new record has no UI, the check passes (whichever record is
  being edited), and a Create or Update of a record with a UI, valid fields and a name is
  committed once the identifier check and the reverse-proxy check pass.
\<close>

theorem ui_port_check_ignores_records_without_ui:
  assumes same: "\<forall>(k, d) \<in> set (store_of self w).
                   py_eq (dict_get d ''ui_port'') (dict_get data ''ui_port'')
                   \<longrightarrow> \<not> truthy (dict_get d ''has_ui'')"
    and ui: "truthy (dict_get data ''has_ui'')"
    and grp: "ui_group_ok data"
    and name: "truthy (dict_get data ''name'')"
  shows "validate_ui_port_uniqueness (store_of self w) (dict_get data ''ui_port'') edited = Inr ()
         \<and> (validate_component_id (store_of self w) cid True = Inr ()
             \<and> validate_single_reverse_proxy (store_of self w)
                  (dict_get data ''is_reverse_proxy'') None = Inr ()
            \<longrightarrow> fst (add_component dumpf self w cid data)
                  = (if fault w = NoFault then Returned else Raised SaveFailed)
                \<and> store_of self (snd (add_component dumpf self w cid data))
                  = AList.update cid data (store_of self w))
         \<and> (validate_component_id (store_of self w) cid False = Inr ()
             \<and> validate_single_reverse_proxy (store_of self w)
                  (dict_get data ''is_reverse_proxy'') (Some cid) = Inr ()
            \<longrightarrow> fst (update_component dumpf self w cid data)
                  = (if fault w = NoFault then Returned else Raised SaveFailed)
                \<and> store_of self (snd (update_component dumpf self w cid data))
                  = AList.update cid data (store_of self w))"
proof -
  let ?st = "store_of self w"
  have u: "validate_ui_port_uniqueness ?st (dict_get data ''ui_port'') ex = Inr ()" for ex
    using same by (auto simp: validate_ui_port_uniqueness_def ui_port_loop_ok)
  have d: "validate_dashy_tile_fields data = Inr ()" using grp by (simp add: dashy_ok)
  have v: "validate_data ?st data ex = Inr ()"
    if "validate_single_reverse_proxy ?st (dict_get data ''is_reverse_proxy'') ex = Inr ()" for ex
    unfolding validate_data_def using u [of ex] d that name ui by (simp add: then_check_def)
  have A: "fst (add_component dumpf self w cid data)
                  = (if fault w = NoFault then Returned else Raised SaveFailed)
                \<and> store_of self (snd (add_component dumpf self w cid data))
                  = AList.update cid data ?st"
    if "validate_component_id ?st cid True = Inr ()"
       "validate_single_reverse_proxy ?st (dict_get data ''is_reverse_proxy'') None = Inr ()"
    using that(1) v [OF that(2)] by (simp add: add_component_def then_check_def commit_result)
  have U: "fst (update_component dumpf self w cid data)
                  = (if fault w = NoFault then Returned else Raised SaveFailed)
                \<and> store_of self (snd (update_component dumpf self w cid data))
                  = AList.update cid data ?st"
    if "validate_component_id ?st cid False = Inr ()"
       "validate_single_reverse_proxy ?st (dict_get data ''is_reverse_proxy'') (Some cid) = Inr ()"
    using that(1) v [OF that(2)] by (simp add: update_component_def then_check_def commit_result)
  from u [of edited] A U show ?thesis by blast
qed

theorem ui_port_check_ignores_records_without_ui_witness:
  "dict_get database ''ui_port'' = dict_get nginx ''ui_port''
   \<and> \<not> truthy (dict_get database ''has_ui'')
   \<and> fst (add_component ex_dump ex_manager ex_world_db ''nginx'' nginx) = Returned
   \<and> store_of ex_manager (snd (add_component ex_dump ex_manager ex_world_db ''nginx'' nginx))
       = [(''db'', database), (''nginx'', nginx)]"
proof -
  have same: "\<forall>(k, d) \<in> set (store_of ex_manager ex_world_db).
                   py_eq (dict_get d ''ui_port'') (dict_get nginx ''ui_port'')
                   \<longrightarrow> \<not> truthy (dict_get d ''has_ui'')"
    by (simp add: ex_world_db_store dict_get_def database_def)
  have ui: "truthy (dict_get nginx ''has_ui'')" by (simp add: dict_get_def nginx_def)
  have grp: "ui_group_ok nginx" by (simp add: ui_group_ok_def dict_get_def nginx_def)
  have name: "truthy (dict_get nginx ''name'')" by (simp add: dict_get_def nginx_def)
  have idc: "validate_component_id (store_of ex_manager ex_world_db) ''nginx'' True = Inr ()"
    by (simp add: ex_world_db_store validate_component_id_def re_match_id_def id_char_def)
  have prx: "validate_single_reverse_proxy (store_of ex_manager ex_world_db)
                  (dict_get nginx ''is_reverse_proxy'') None = Inr ()"
    by (simp add: ex_world_db_store validate_single_reverse_proxy_def dict_get_def database_def)
  have nf: "fault ex_world_db = NoFault" by (simp add: ex_world_db_eq)
  have f: "dict_get database ''ui_port'' = dict_get nginx ''ui_port''
           \<and> \<not> truthy (dict_get database ''has_ui'')"
    by (simp add: dict_get_def database_def nginx_def)
  from ui_port_check_ignores_records_without_ui [OF same ui grp name, of None "''nginx''" ex_dump]
    idc prx nf f
  show ?thesis by (simp add: ex_world_db_store)
qed

end
